theory Spec2Isabelle
  imports Complex_Main
begin

section \<open>The BESS return-on-investment engine of app/lib/roi.ts\<close>

text \<open>
  The two functions of \<^verbatim>\<open>app/lib/roi.ts\<close>, \<^verbatim>\<open>fuelLphInterpSimple\<close> and
  \<^verbatim>\<open>bessRoi\<close>, and the fuel curve table they read, are embedded twice.

  In the first embedding a TypeScript \<^verbatim>\<open>number\<close> is a \<^typ>\<open>real\<close> and the arithmetic is
  exact. It carries the properties of the control flow that no rounding can change: the
  order of the validation gates, the clamping of the load fraction, the lookup of the
  rating and the bracket search (the section on the control flow with doubles has the
  same lemmas for the second embedding).

  In the second embedding (names with the suffix \<open>D\<close>) a \<^verbatim>\<open>number\<close> is an IEEE-754
  double: every operation rounds to the nearest double, underflows to 0 and overflows to
  an infinity, and NaN fails every comparison. It carries the properties that depend on
  the computed values.

  In both, a \<^verbatim>\<open>throw new Error(msg)\<close> is the left summand of the result, with one
  constructor of the error type for each message of the source, and
  \<^verbatim>\<open>number | null\<close> is an option.
\<close>

section \<open>Exact arithmetic\<close>

subsection \<open>Data\<close>


record RoiOutputs =
  loadPct :: real
  loadKW :: real
  fuelLph :: real
  annualFuelOnlyLitres :: real
  annualFuelOnlyCost :: real
  dieselKWhPerL :: real
  dailyBESSEnergyKWh :: real
  fuelSavedPerDayLitres :: real
  annualFuelSavingsLitres :: real
  annualFuelSavingsCost :: real
  bessCyclesPerDay :: real
  capex :: real
  paybackYears :: "real option"
  simpleFiveYearROI :: "real option"

record FuelCurvePoint =
  kva :: real
  lph25 :: real
  lph50 :: real
  lph75 :: real
  lph100 :: real

text \<open>
  One constructor for each \<^verbatim>\<open>throw\<close> of the source, in the order of the source:
  \<^item> \<open>UnknownGensetRating g\<close>: "Fuel curve missing for g kVA"
  \<^item> \<open>InterpolationFailure\<close>: "Interpolation failed"
  \<^item> \<open>InvalidElectricalInputs\<close>: "Invalid genset, load or power factor"
  \<^item> \<open>InvalidSizingInputs\<close>: "Invalid hours per day or BESS sizing"
  \<^item> \<open>InvalidSocWindow\<close>: "Invalid SOC limits"
  \<^item> \<open>NoChargingHeadroom\<close>: "No headroom to charge BESS from genset"
  \<^item> \<open>BaselineFuelNonPositive\<close>: "Baseline fuel is non-positive"
  \<^item> \<open>FullLoadFuelNonPositive\<close>: "Full-load fuel is non-positive"
  \<^item> \<open>DegenerateSocWindow\<close>: "Usable BESS energy is non-positive"
  \<^item> \<open>NoSurplusPower\<close>: "No surplus power to charge BESS"
  \<^item> \<open>InvalidDutyCycle\<close>: "Invalid charge/discharge time"
  \<^item> \<open>StrategyDoesNotSaveFuel\<close>: "Full-load strategy does not save fuel for this case"
\<close>

datatype error =
    UnknownGensetRating real
  | InterpolationFailure
  | InvalidElectricalInputs
  | InvalidSizingInputs
  | InvalidSocWindow
  | NoChargingHeadroom
  | BaselineFuelNonPositive
  | FullLoadFuelNonPositive
  | DegenerateSocWindow
  | NoSurplusPower
  | InvalidDutyCycle
  | StrategyDoesNotSaveFuel

definition mkPoint :: "real \<Rightarrow> real \<Rightarrow> real \<Rightarrow> real \<Rightarrow> real \<Rightarrow> FuelCurvePoint" where
  "mkPoint k a b c d = \<lparr>kva = k, lph25 = a, lph50 = b, lph75 = c, lph100 = d\<rparr>"

definition fuelCurveTable :: "FuelCurvePoint list" where
  "fuelCurveTable =
    [ mkPoint 10 0.9 1.2 1.7 2.1,
      mkPoint 15 1.3 1.8 2.6 3.2,
      mkPoint 20 2.3 3.4 4.9 6.1,
      mkPoint 30 4.0 5.7 7.6 8.4,
      mkPoint 40 4.9 6.1 9.1 11.0,
      mkPoint 50 6.1 8.7 12.1 15.1,
      mkPoint 60 7.3 10.5 14.1 15.9,
      mkPoint 75 6.8 11.0 14.4 18.2,
      mkPoint 100 9.1 12.9 17.4 23.1,
      mkPoint 125 9.8 15.5 22.0 28.0,
      mkPoint 150 11.7 18.9 26.9 34.4,
      mkPoint 180 13.6 22.3 31.8 41.3,
      mkPoint 200 15.5 25.7 36.7 48.1,
      mkPoint 250 17.8 29.1 41.6 54.5,
      mkPoint 300 21.6 36.0 51.5 68.1,
      mkPoint 350 25.7 42.8 60.9 81.4,
      mkPoint 400 29.9 49.6 70.8 95.0,
      mkPoint 500 33.7 56.4 80.6 108.3,
      mkPoint 600 41.6 70.0 99.9 135.1,
      mkPoint 800 61.7 79.3 119.1 161.0,
      mkPoint 1000 75.9 111.9 153.0 222.3,
      mkPoint 1250 81.8 137.7 197.2 269.1 ]"

subsection \<open>fuelLphInterpSimple\<close>

text \<open>
  The loop \<^verbatim>\<open>for (let i = 0; i < 3; i++)\<close> over the breakpoints \<open>x\<close> and the samples
  \<open>y\<close>: it returns from the first bracket that holds \<open>p\<close>, and falls through to the
  final \<^verbatim>\<open>throw\<close> when \<open>i\<close> reaches 3. Every index read is below 4, the length of both
  arrays.
\<close>

function interpLoop :: "real list \<Rightarrow> real list \<Rightarrow> real \<Rightarrow> nat \<Rightarrow> error + real" where
  "interpLoop x y p i =
     (if i < 3 then
        (if p \<ge> x ! i \<and> p \<le> x ! (i + 1) then
           (let t = (p - x ! i) / (x ! (i + 1) - x ! i)
            in Inr (y ! i + t * (y ! (i + 1) - y ! i)))
         else interpLoop x y p (i + 1))
      else Inl InterpolationFailure)"
  by pat_completeness auto
termination
  by (relation "measure (\<lambda>(x, y, p, i). 3 - i)") auto

declare interpLoop.simps [simp del]

definition fuelLphInterpSimple :: "real \<Rightarrow> real \<Rightarrow> FuelCurvePoint list \<Rightarrow> error + real" where
  "fuelLphInterpSimple g p table =
     (case find (\<lambda>r. kva r = g) table of
        None \<Rightarrow> Inl (UnknownGensetRating g)
      | Some row \<Rightarrow>
          (let x = [0.25, 0.5, 0.75, 1.0];
               y = [lph25 row, lph50 row, lph75 row, lph100 row]
           in if p \<le> x ! 0 then Inr (y ! 0)
              else if p \<ge> x ! 3 then Inr (y ! 3)
              else interpLoop x y p 0))"

subsection \<open>bessRoi\<close>



section \<open>Double arithmetic\<close>

subsection \<open>IEEE-754 doubles\<close>

text \<open>
  A double is NaN, one of the two infinities, or a finite value, held as the real it
  denotes. \<open>rnd\<close> rounds a real to the nearest double, ties to even: with \<open>e\<close> the
  exponent of the binade of \<open>\<bar>x\<bar>\<close>, kept within -1022 and 1023 (so that the subnormal
  range has the spacing \<open>pow2 (- 1074)\<close>), the result is the multiple of \<open>pow2 (e - 52)\<close>
  nearest to \<open>x\<close>; it is an infinity when the rounded significand reaches \<open>2 ^ 53\<close> at
  exponent 1023, that is when the rounded value reaches \<open>2 ^ 1024\<close>. A number literal of
  the source is the double nearest to it (\<open>lit\<close>); 0, 0.25, 0.5, 0.75, 1, 5, 100 and 365
  are doubles and are written \<open>Fin\<close>.

  The operations are those of IEEE-754: the exact result, rounded, and the special cases
  of NaN, the infinities and division by zero. A comparison with NaN is false.

  The model has one zero. JavaScript's \<open>-0\<close> equals \<open>0\<close> in every comparison and differs
  from it only as a divisor. The divisors of this code are \<^verbatim>\<open>gensetKVA\<close>, \<^verbatim>\<open>P_ch\<close>,
  \<^verbatim>\<open>fuelBase_Lph\<close>, \<^verbatim>\<open>annualFuelSavingsCost\<close> and \<^verbatim>\<open>capex\<close>, each behind a guard that
  excludes zero; \<^verbatim>\<open>denom\<close>, behind \<^verbatim>\<open>denom !== 0\<close>; the differences of the breakpoints,
  which are 0.25; \<^verbatim>\<open>T_cycle\<close>, a sum of two numbers that are not \<^verbatim>\<open><= 0\<close>; and
  \<^verbatim>\<open>loadKW\<close>, the product of two numbers that are not \<^verbatim>\<open><= 0\<close>, which can underflow, to
  \<open>+0\<close>. So a division by zero in this code is a division by \<open>+0\<close>, and the model divides
  by its zero as by \<open>+0\<close>.
\<close>

datatype number = NaN | PInf | NInf | Fin real

definition pow2 :: "int \<Rightarrow> real" where
  "pow2 e = (if 0 \<le> e then 2 ^ nat e else 1 / 2 ^ nat (- e))"

text \<open>Rounding a real to the nearest integer, a tie to the even one.\<close>

definition rne :: "real \<Rightarrow> int" where
  "rne x = (let f = \<lfloor>x\<rfloor>; d = x - of_int f
            in if d < 1 / 2 then f else if 1 / 2 < d then f + 1
               else if even f then f else f + 1)"

text \<open>
  \<open>expSearch a lo hi\<close> bisects for the largest \<open>e\<close> from \<open>lo\<close> below \<open>hi\<close> with
  \<open>pow2 e \<le> a\<close> (\<open>lo\<close> when there is none). \<open>expo a\<close> is that exponent between -1022 and
  1023; it looks between -64 and 64 first, which only shortens the search.
\<close>

function expSearch :: "real \<Rightarrow> int \<Rightarrow> int \<Rightarrow> int" where
  "expSearch a lo hi =
     (if hi - lo \<le> 1 then lo
      else let mid = (lo + hi) div 2
           in if pow2 mid \<le> a then expSearch a mid hi else expSearch a lo mid)"
  by pat_completeness auto
termination
  by (relation "measure (\<lambda>(a, lo, hi). nat (hi - lo))") (auto simp: Let_def)

declare expSearch.simps [simp del]

definition expo :: "real \<Rightarrow> int" where
  "expo a =
     (if pow2 (- 64) \<le> a \<and> a < pow2 64 then expSearch a (- 64) 64
      else expSearch a (- 1022) 1024)"

definition rnd :: "real \<Rightarrow> number" where
  "rnd x = (let e = expo \<bar>x\<bar>; q = pow2 (e - 52); n = rne (x / q)
            in if e = 1023 \<and> 2 ^ 53 \<le> n then PInf
               else if e = 1023 \<and> n \<le> - (2 ^ 53) then NInf
               else Fin (of_int n * q))"

definition lit :: "real \<Rightarrow> number" where
  "lit x = rnd x"

fun fneg :: "number \<Rightarrow> number" where
  "fneg NaN = NaN"
| "fneg PInf = NInf"
| "fneg NInf = PInf"
| "fneg (Fin a) = Fin (- a)"

fun fadd :: "number \<Rightarrow> number \<Rightarrow> number" where
  "fadd NaN y = NaN"
| "fadd x NaN = NaN"
| "fadd PInf NInf = NaN"
| "fadd NInf PInf = NaN"
| "fadd PInf y = PInf"
| "fadd NInf y = NInf"
| "fadd x PInf = PInf"
| "fadd x NInf = NInf"
| "fadd (Fin a) (Fin b) = rnd (a + b)"

definition fsub :: "number \<Rightarrow> number \<Rightarrow> number" where
  "fsub x y = fadd x (fneg y)"

fun fmul :: "number \<Rightarrow> number \<Rightarrow> number" where
  "fmul NaN y = NaN"
| "fmul x NaN = NaN"
| "fmul PInf PInf = PInf"
| "fmul PInf NInf = NInf"
| "fmul NInf PInf = NInf"
| "fmul NInf NInf = PInf"
| "fmul PInf (Fin b) = (if b = 0 then NaN else if 0 < b then PInf else NInf)"
| "fmul NInf (Fin b) = (if b = 0 then NaN else if 0 < b then NInf else PInf)"
| "fmul (Fin a) PInf = (if a = 0 then NaN else if 0 < a then PInf else NInf)"
| "fmul (Fin a) NInf = (if a = 0 then NaN else if 0 < a then NInf else PInf)"
| "fmul (Fin a) (Fin b) = rnd (a * b)"

fun fdiv :: "number \<Rightarrow> number \<Rightarrow> number" where
  "fdiv NaN y = NaN"
| "fdiv x NaN = NaN"
| "fdiv PInf (Fin b) = (if 0 \<le> b then PInf else NInf)"
| "fdiv NInf (Fin b) = (if 0 \<le> b then NInf else PInf)"
| "fdiv PInf y = NaN"
| "fdiv NInf y = NaN"
| "fdiv (Fin a) PInf = Fin 0"
| "fdiv (Fin a) NInf = Fin 0"
| "fdiv (Fin a) (Fin b) =
     (if b = 0 then (if a = 0 then NaN else if 0 < a then PInf else NInf)
      else rnd (a / b))"

text \<open>The comparisons \<^verbatim>\<open><=\<close>, \<^verbatim>\<open><\<close>, \<^verbatim>\<open>>=\<close>, \<^verbatim>\<open>>\<close>, \<^verbatim>\<open>===\<close> and \<^verbatim>\<open>!==\<close>.\<close>

fun fle :: "number \<Rightarrow> number \<Rightarrow> bool" where
  "fle NaN y = False"
| "fle x NaN = False"
| "fle NInf y = True"
| "fle x PInf = True"
| "fle PInf y = False"
| "fle x NInf = False"
| "fle (Fin a) (Fin b) = (a \<le> b)"

fun flt :: "number \<Rightarrow> number \<Rightarrow> bool" where
  "flt NaN y = False"
| "flt x NaN = False"
| "flt PInf y = False"
| "flt x NInf = False"
| "flt NInf y = True"
| "flt x PInf = True"
| "flt (Fin a) (Fin b) = (a < b)"

definition fge :: "number \<Rightarrow> number \<Rightarrow> bool" where
  "fge x y = fle y x"

definition fgt :: "number \<Rightarrow> number \<Rightarrow> bool" where
  "fgt x y = flt y x"

definition feq :: "number \<Rightarrow> number \<Rightarrow> bool" where
  "feq x y = (x \<noteq> NaN \<and> y \<noteq> NaN \<and> x = y)"

definition fne :: "number \<Rightarrow> number \<Rightarrow> bool" where
  "fne x y = (\<not> feq x y)"

subsection \<open>Data, with doubles\<close>

record RoiInputsD =
  gensetKVA_D :: number
  loadKVA_D :: number
  powerFactor_D :: number
  hoursPerDay_D :: number
  dieselPricePerL_D :: number
  bessSizeKWh_D :: number
  bessPricePerKWh_D :: number
  socMax_D :: number
  socMin_D :: number

record RoiOutputsD =
  loadPct_D :: number
  loadKW_D :: number
  fuelLph_D :: number
  annualFuelOnlyLitres_D :: number
  annualFuelOnlyCost_D :: number
  dieselKWhPerL_D :: number
  dailyBESSEnergyKWh_D :: number
  fuelSavedPerDayLitres_D :: number
  annualFuelSavingsLitres_D :: number
  annualFuelSavingsCost_D :: number
  bessCyclesPerDay_D :: number
  capex_D :: number
  paybackYears_D :: "number option"
  simpleFiveYearROI_D :: "number option"

record FuelCurvePointD =
  kva_D :: number
  lph25_D :: number
  lph50_D :: number
  lph75_D :: number
  lph100_D :: number

text \<open>The errors, one for each \<^verbatim>\<open>throw\<close> as above; the rating is a double.\<close>

datatype errorD =
    UnknownGensetRating_D number
  | InterpolationFailure_D
  | InvalidElectricalInputs_D
  | InvalidSizingInputs_D
  | InvalidSocWindow_D
  | NoChargingHeadroom_D
  | BaselineFuelNonPositive_D
  | FullLoadFuelNonPositive_D
  | DegenerateSocWindow_D
  | NoSurplusPower_D
  | InvalidDutyCycle_D
  | StrategyDoesNotSaveFuel_D

definition mkPointD :: "real \<Rightarrow> real \<Rightarrow> real \<Rightarrow> real \<Rightarrow> real \<Rightarrow> FuelCurvePointD" where
  "mkPointD k a b c d =
     \<lparr>kva_D = lit k, lph25_D = lit a, lph50_D = lit b, lph75_D = lit c, lph100_D = lit d\<rparr>"

definition fuelCurveTableD :: "FuelCurvePointD list" where
  "fuelCurveTableD =
    [ mkPointD 10 0.9 1.2 1.7 2.1,
      mkPointD 15 1.3 1.8 2.6 3.2,
      mkPointD 20 2.3 3.4 4.9 6.1,
      mkPointD 30 4.0 5.7 7.6 8.4,
      mkPointD 40 4.9 6.1 9.1 11.0,
      mkPointD 50 6.1 8.7 12.1 15.1,
      mkPointD 60 7.3 10.5 14.1 15.9,
      mkPointD 75 6.8 11.0 14.4 18.2,
      mkPointD 100 9.1 12.9 17.4 23.1,
      mkPointD 125 9.8 15.5 22.0 28.0,
      mkPointD 150 11.7 18.9 26.9 34.4,
      mkPointD 180 13.6 22.3 31.8 41.3,
      mkPointD 200 15.5 25.7 36.7 48.1,
      mkPointD 250 17.8 29.1 41.6 54.5,
      mkPointD 300 21.6 36.0 51.5 68.1,
      mkPointD 350 25.7 42.8 60.9 81.4,
      mkPointD 400 29.9 49.6 70.8 95.0,
      mkPointD 500 33.7 56.4 80.6 108.3,
      mkPointD 600 41.6 70.0 99.9 135.1,
      mkPointD 800 61.7 79.3 119.1 161.0,
      mkPointD 1000 75.9 111.9 153.0 222.3,
      mkPointD 1250 81.8 137.7 197.2 269.1 ]"

subsection \<open>fuelLphInterpSimple, with doubles\<close>

function interpLoopD :: "number list \<Rightarrow> number list \<Rightarrow> number \<Rightarrow> nat \<Rightarrow> errorD + number" where
  "interpLoopD x y p i =
     (if i < 3 then
        (if fge p (x ! i) \<and> fle p (x ! (i + 1)) then
           (let t = fdiv (fsub p (x ! i)) (fsub (x ! (i + 1)) (x ! i))
            in Inr (fadd (y ! i) (fmul t (fsub (y ! (i + 1)) (y ! i)))))
         else interpLoopD x y p (i + 1))
      else Inl InterpolationFailure_D)"
  by pat_completeness auto
termination
  by (relation "measure (\<lambda>(x, y, p, i). 3 - i)") auto

declare interpLoopD.simps [simp del]

definition fuelLphInterpSimpleD ::
  "number \<Rightarrow> number \<Rightarrow> FuelCurvePointD list \<Rightarrow> errorD + number" where
  "fuelLphInterpSimpleD g p table =
     (case find (\<lambda>r. feq (kva_D r) g) table of
        None \<Rightarrow> Inl (UnknownGensetRating_D g)
      | Some row \<Rightarrow>
          (let x = [Fin 0.25, Fin 0.5, Fin 0.75, Fin 1.0];
               y = [lph25_D row, lph50_D row, lph75_D row, lph100_D row]
           in if fle p (x ! 0) then Inr (y ! 0)
              else if fge p (x ! 3) then Inr (y ! 3)
              else interpLoopD x y p 0))"

subsection \<open>bessRoi, with doubles\<close>

definition bessRoiD :: "RoiInputsD \<Rightarrow> FuelCurvePointD list \<Rightarrow> errorD + RoiOutputsD" where
  "bessRoiD inputs table =
    (if fle (gensetKVA_D inputs) (Fin 0) \<or> fle (loadKVA_D inputs) (Fin 0)
        \<or> fle (powerFactor_D inputs) (Fin 0)
       then Inl InvalidElectricalInputs_D
     else if fle (hoursPerDay_D inputs) (Fin 0) \<or> fle (bessSizeKWh_D inputs) (Fin 0)
        \<or> fle (bessPricePerKWh_D inputs) (Fin 0)
       then Inl InvalidSizingInputs_D
     else if fle (socMax_D inputs) (socMin_D inputs) \<or> fgt (socMax_D inputs) (Fin 1)
        \<or> flt (socMin_D inputs) (Fin 0)
       then Inl InvalidSocWindow_D
     else
      let loadKW = fmul (loadKVA_D inputs) (powerFactor_D inputs);
          gensetKW = fmul (gensetKVA_D inputs) (powerFactor_D inputs)
      in if fge loadKW gensetKW then Inl NoChargingHeadroom_D
      else
       let loadPct = fdiv (loadKVA_D inputs) (gensetKVA_D inputs)
       in case fuelLphInterpSimpleD (gensetKVA_D inputs) loadPct table of
            Inl e \<Rightarrow> Inl e
          | Inr fuelBase_Lph \<Rightarrow>
        if fle fuelBase_Lph (Fin 0) then Inl BaselineFuelNonPositive_D
        else (case fuelLphInterpSimpleD (gensetKVA_D inputs) (Fin 1) table of
            Inl e \<Rightarrow> Inl e
          | Inr fuelFull_Lph \<Rightarrow>
        if fle fuelFull_Lph (Fin 0) then Inl FullLoadFuelNonPositive_D
        else
         let E_batt_use = fmul (bessSizeKWh_D inputs) (fsub (socMax_D inputs) (socMin_D inputs))
         in if fle E_batt_use (Fin 0) then Inl DegenerateSocWindow_D
         else
          let P_ch = fsub gensetKW loadKW
          in if fle P_ch (Fin 0) then Inl NoSurplusPower_D
          else
           let t_ch = fdiv E_batt_use P_ch;
               t_dis = fdiv E_batt_use loadKW
           in if fle t_ch (Fin 0) \<or> fle t_dis (Fin 0) then Inl InvalidDutyCycle_D
           else
            let T_cycle = fadd t_ch t_dis;
                onFraction = fdiv t_ch T_cycle;
                gensetHoursPerDay = fmul (hoursPerDay_D inputs) onFraction;
                fuelDay_base_L = fmul fuelBase_Lph (hoursPerDay_D inputs);
                annualFuelOnlyLitres = fmul fuelDay_base_L (Fin 365);
                annualFuelOnlyCost = fmul annualFuelOnlyLitres (dieselPricePerL_D inputs);
                fuelDay_new_L = fmul fuelFull_Lph gensetHoursPerDay;
                fuelSavedPerDay_L = fsub fuelDay_base_L fuelDay_new_L
            in if fle fuelSavedPerDay_L (Fin 0) then Inl StrategyDoesNotSaveFuel_D
            else
             let annualFuelSavingsLitres = fmul fuelSavedPerDay_L (Fin 365);
                 annualFuelSavingsCost = fmul annualFuelSavingsLitres (dieselPricePerL_D inputs);
                 dieselKWhPerL = fdiv loadKW fuelBase_Lph;
                 dailyBESSEnergyKWh = fmul fuelSavedPerDay_L dieselKWhPerL;
                 headroomKW = fsub gensetKW loadKW;
                 bessCyclesPerDay =
                   (if fgt headroomKW (Fin 0) \<and> fgt (bessSizeKWh_D inputs) (Fin 0)
                       \<and> fgt (socMax_D inputs) (socMin_D inputs)
                    then
                      (let denom = fmul (fmul (bessSizeKWh_D inputs)
                                           (fsub (socMax_D inputs) (socMin_D inputs)))
                                     (fadd headroomKW loadKW)
                       in if fne denom (Fin 0)
                          then fdiv (fmul (fmul (hoursPerDay_D inputs) headroomKW) loadKW) denom
                          else Fin 0)
                    else Fin 0);
                 capex = fmul (bessSizeKWh_D inputs) (bessPricePerKWh_D inputs);
                 paybackYears =
                   (if fgt annualFuelSavingsCost (Fin 0)
                    then Some (fdiv capex annualFuelSavingsCost)
                    else None);
                 totalSavings5y = fmul annualFuelSavingsCost (Fin 5);
                 simpleFiveYearROI =
                   (if fgt capex (Fin 0)
                    then Some (fmul (fdiv (fsub totalSavings5y capex) capex) (Fin 100))
                    else None)
             in Inr \<lparr> loadPct_D = loadPct,
                      loadKW_D = loadKW,
                      fuelLph_D = fuelBase_Lph,
                      annualFuelOnlyLitres_D = annualFuelOnlyLitres,
                      annualFuelOnlyCost_D = annualFuelOnlyCost,
                      dieselKWhPerL_D = dieselKWhPerL,
                      dailyBESSEnergyKWh_D = dailyBESSEnergyKWh,
                      fuelSavedPerDayLitres_D = fuelSavedPerDay_L,
                      annualFuelSavingsLitres_D = annualFuelSavingsLitres,
                      annualFuelSavingsCost_D = annualFuelSavingsCost,
                      bessCyclesPerDay_D = bessCyclesPerDay,
                      capex_D = capex,
                      paybackYears_D = paybackYears,
                      simpleFiveYearROI_D = simpleFiveYearROI \<rparr>))"

text \<open>The default inputs of the page (scenario A of the specification).\<close>

definition scenarioAD :: RoiInputsD where
  "scenarioAD = \<lparr> gensetKVA_D = lit 125, loadKVA_D = lit 56, powerFactor_D = lit 0.8,
                  hoursPerDay_D = lit 10, dieselPricePerL_D = lit 3, bessSizeKWh_D = lit 520,
                  bessPricePerKWh_D = lit 650, socMax_D = lit 1, socMin_D = lit 0.2 \<rparr>"

text \<open>
  The request handler \<^verbatim>\<open>POST\<close> of \<^verbatim>\<open>app/api/calc/route.ts\<close> answers with status 400,
  and does not call \<^verbatim>\<open>bessRoi\<close>, when one of the nine fields is not a number or is NaN
  (\<^verbatim>\<open>Number.isNaN\<close>). An infinity passes.
\<close>

definition noNaNFields :: "RoiInputsD \<Rightarrow> bool" where
  "noNaNFields inputs =
     (gensetKVA_D inputs \<noteq> NaN \<and> loadKVA_D inputs \<noteq> NaN \<and> powerFactor_D inputs \<noteq> NaN
      \<and> hoursPerDay_D inputs \<noteq> NaN \<and> dieselPricePerL_D inputs \<noteq> NaN
      \<and> bessSizeKWh_D inputs \<noteq> NaN \<and> bessPricePerKWh_D inputs \<noteq> NaN
      \<and> socMax_D inputs \<noteq> NaN \<and> socMin_D inputs \<noteq> NaN)"

subsection \<open>The collapsed cycles formula of the specification\<close>

text \<open>
  This definition follows the words of the specification, not the source: the cycles per
  day are 0 if \<open>surplusPowerKW \<le> 0\<close>; otherwise, with
  \<open>surplusPowerKW = gensetPowerKW - loadPowerKW\<close>, they are
  \<open>hoursPerDay * surplusPowerKW * loadPowerKW / (usableEnergyKWh * gensetPowerKW)\<close>, and 0
  when that denominator is 0. It is compared below with the value that \<open>bessRoiD\<close>
  computes with the unsimplified denominator.
\<close>

definition specCyclesCollapsedD :: "RoiInputsD \<Rightarrow> number" where
  "specCyclesCollapsedD inputs =
     (let loadPowerKW = fmul (loadKVA_D inputs) (powerFactor_D inputs);
          gensetPowerKW = fmul (gensetKVA_D inputs) (powerFactor_D inputs);
          usableEnergyKWh = fmul (bessSizeKWh_D inputs) (fsub (socMax_D inputs) (socMin_D inputs));
          surplusPowerKW = fsub gensetPowerKW loadPowerKW
      in if fle surplusPowerKW (Fin 0) then Fin 0
         else (let denominator = fmul usableEnergyKWh gensetPowerKW
               in if feq denominator (Fin 0) then Fin 0
                  else fdiv (fmul (fmul (hoursPerDay_D inputs) surplusPowerKW) loadPowerKW)
                         denominator))"

section \<open>Helper lemmas, exact arithmetic\<close>

subsection \<open>The interpolator in closed form\<close>

lemma interpLoop_unrolled:
  "interpLoop [x0, x1, x2, x3] [a, b, c, d] p 0 =
     (if x0 \<le> p \<and> p \<le> x1 then Inr (a + (p - x0) / (x1 - x0) * (b - a))
      else if x1 \<le> p \<and> p \<le> x2 then Inr (b + (p - x1) / (x2 - x1) * (c - b))
      else if x2 \<le> p \<and> p \<le> x3 then Inr (c + (p - x2) / (x3 - x2) * (d - c))
      else Inl InterpolationFailure)"
  apply (subst interpLoop.simps)
  apply (subst interpLoop.simps)
  apply (subst interpLoop.simps)
  apply (subst interpLoop.simps)
  apply (simp add: Let_def)
  done

lemma fuelLphInterpSimple_found:
  assumes "find (\<lambda>r. kva r = g) table = Some row"
  shows "fuelLphInterpSimple g p table =
     (if p \<le> 1 / 4 then Inr (lph25 row)
      else if 1 \<le> p then Inr (lph100 row)
      else if p \<le> 1 / 2 then Inr (lph25 row + (p - 1 / 4) * 4 * (lph50 row - lph25 row))
      else if p \<le> 3 / 4 then Inr (lph50 row + (p - 1 / 2) * 4 * (lph75 row - lph50 row))
      else Inr (lph75 row + (p - 3 / 4) * 4 * (lph100 row - lph75 row)))"
  unfolding fuelLphInterpSimple_def Let_def interpLoop_unrolled using assms
  by (simp add: field_simps)

lemma fuelLphInterpSimple_missing:
  assumes "find (\<lambda>r. kva r = g) table = None"
  shows "fuelLphInterpSimple g p table = Inl (UnknownGensetRating g)"
  using assms by (simp add: fuelLphInterpSimple_def)

lemma find_125:
  "find (\<lambda>r. kva r = 125) fuelCurveTable = Some (mkPoint 125 9.8 15.5 22.0 28.0)"
  by (simp add: fuelCurveTable_def mkPoint_def)


text \<open>
  The lookup \<^verbatim>\<open>table.find\<close> yields the first row with the rating. It fails exactly
  when no row has the rating, and when ratings are unique, as the data model requires
  and as the built-in table has them, it yields every row of the table at that row's
  rating.
\<close>

lemma find_rating_None:
  "find (\<lambda>r. kva r = g) table = None \<longleftrightarrow> g \<notin> kva ` set table"
  by (auto simp: find_None_iff)

lemma find_unique_row:
  assumes "row \<in> set table" and "\<forall>r \<in> set table. kva r = kva row \<longrightarrow> r = row"
  shows "find (\<lambda>r. kva r = kva row) table = Some row"
  using assms by (induction table) auto

lemma fuelCurveTable_ratings_distinct: "distinct (map kva fuelCurveTable)"
  by (simp add: fuelCurveTable_def mkPoint_def)

section \<open>Helper lemmas, double arithmetic\<close>

subsection \<open>Evaluation\<close>

lemma feq_simps [simp]:
  "feq NaN y = False" "feq x NaN = False"
  "feq (Fin a) (Fin b) = (a = b)"
  "feq PInf PInf = True" "feq NInf NInf = True"
  "feq PInf NInf = False" "feq NInf PInf = False"
  "feq PInf (Fin b) = False" "feq (Fin a) PInf = False"
  "feq NInf (Fin b) = False" "feq (Fin a) NInf = False"
  by (auto simp: feq_def)

text \<open>
  A \<open>let\<close> is unfolded once its bound term is a value, so that the simplifier
  evaluates every operation once.
\<close>

lemma Let_value:
  "\<And>f. Let (0::int) f = f 0" "\<And>f. Let (1::int) f = f 1"
  "\<And>f k. Let (numeral k :: int) f = f (numeral k)"
  "\<And>f k. Let (- numeral k :: int) f = f (- numeral k)"
  "\<And>f. Let (- 1 :: int) f = f (- 1)"
  "\<And>g. Let (0::real) g = g 0" "\<And>g. Let (1::real) g = g 1"
  "\<And>g k. Let (numeral k :: real) g = g (numeral k)"
  "\<And>g k. Let (- numeral k :: real) g = g (- numeral k)"
  "\<And>g. Let (- 1 :: real) g = g (- 1)"
  "\<And>g k l. Let (numeral k / numeral l :: real) g = g (numeral k / numeral l)"
  "\<And>g k l. Let (- (numeral k / numeral l) :: real) g = g (- (numeral k / numeral l))"
  "\<And>g l. Let (1 / numeral l :: real) g = g (1 / numeral l)"
  "\<And>g l. Let (- (1 / numeral l) :: real) g = g (- (1 / numeral l))"
  "\<And>h. Let NaN h = h NaN" "\<And>h. Let PInf h = h PInf" "\<And>h. Let NInf h = h NInf"
  "\<And>h a. Let (Fin a) h = h (Fin a)"
  "\<And>j. Let ([] :: number list) j = j []"
  "\<And>j a as. Let (a # as :: number list) j = j (a # as)"
  by (simp_all add: Let_def)

lemmas eval_rnd = rnd_def lit_def expo_def pow2_def rne_def Let_value expSearch.simps
  fsub_def fge_def fgt_def fne_def

text \<open>
  Rounding at the edges of the format: the largest double, the tie above it that
  overflows, the smallest subnormal, and ties to even in the subnormal range.
\<close>

lemma rnd_edges:
  "rnd (2 ^ 1024 - 2 ^ 971) = Fin (2 ^ 1024 - 2 ^ 971)"
  "rnd (2 ^ 1024 - 2 ^ 970) = PInf"
  "rnd (- (2 ^ 1024 - 2 ^ 970)) = NInf"
  "rnd (2 ^ 1024 - 2 ^ 970 - 1) = Fin (2 ^ 1024 - 2 ^ 971)"
  "rnd (1 / 2 ^ 1074) = Fin (1 / 2 ^ 1074)"
  "rnd (1 / 2 ^ 1075) = Fin 0"
  "rnd (3 / 2 ^ 1075) = Fin (2 / 2 ^ 1074)"
  "rnd (1 + 1 / 2 ^ 53) = Fin 1"
  "rnd (1 + 3 / 2 ^ 53) = Fin (1 + 2 / 2 ^ 52)"
  by (simp_all add: eval_rnd)

lemma lits_differ:
  "\<not> feq (lit 44.800000000000004) (lit 44.8)"
  "\<not> feq (lit 0.18846153846153843) (lit 0.18846153846153846)"
  "\<not> feq (lit 0.8999999999999999) (lit 0.9)"
  by (simp_all add: eval_rnd)

subsection \<open>Signs survive rounding\<close>

lemma pow2_pos: "0 < pow2 e"
  by (simp add: pow2_def)

lemma rne_nonneg: "0 \<le> x \<Longrightarrow> 0 \<le> rne x"
  by (auto simp: rne_def Let_def)

lemma rne_nonpos: "x \<le> 0 \<Longrightarrow> rne x \<le> 0"
proof -
  assume x: "x \<le> 0"
  have f: "\<lfloor>x\<rfloor> \<le> 0" using x by linarith
  have "\<lfloor>x\<rfloor> + 1 \<le> 0" if "\<not> x - of_int \<lfloor>x\<rfloor> < 1 / 2"
  proof -
    have "of_int \<lfloor>x\<rfloor> \<le> x - 1 / 2" using that by linarith
    then have "of_int \<lfloor>x\<rfloor> < (0::real)" using x by linarith
    then have "\<lfloor>x\<rfloor> < 0" by linarith
    then show ?thesis by linarith
  qed
  then show ?thesis using f by (auto simp: rne_def Let_def)
qed

lemma rnd_nonneg:
  assumes "0 \<le> x"
  shows "rnd x = PInf \<or> (\<exists>y. 0 \<le> y \<and> rnd x = Fin y)"
proof -
  let ?q = "pow2 (expo \<bar>x\<bar> - 52)"
  have q: "0 < ?q" by (rule pow2_pos)
  have "0 \<le> x / ?q" using assms q by simp
  then have n: "0 \<le> rne (x / ?q)" by (rule rne_nonneg)
  then have y: "0 \<le> of_int (rne (x / ?q)) * ?q" using q by simp
  have "\<not> rne (x / ?q) \<le> - (2 ^ 53)" using n by simp
  then show ?thesis using y by (auto simp: rnd_def Let_def)
qed

lemma rnd_nonpos:
  assumes "x \<le> 0"
  shows "rnd x = NInf \<or> (\<exists>y. y \<le> 0 \<and> rnd x = Fin y)"
proof -
  let ?q = "pow2 (expo \<bar>x\<bar> - 52)"
  have q: "0 < ?q" by (rule pow2_pos)
  have "x / ?q \<le> 0" using assms q by (simp add: divide_nonpos_pos)
  then have n: "rne (x / ?q) \<le> 0" by (rule rne_nonpos)
  then have y: "of_int (rne (x / ?q)) * ?q \<le> 0" using q by (simp add: mult_nonpos_nonneg)
  have "\<not> 2 ^ 53 \<le> rne (x / ?q)" using n by simp
  then show ?thesis using y by (auto simp: rnd_def Let_def)
qed

text \<open>Not below zero are NaN, the positive infinity and the finite numbers from 0.\<close>

lemma not_flt_zero_iff:
  "\<not> flt x (Fin 0) \<longleftrightarrow> x = NaN \<or> x = PInf \<or> (\<exists>a. 0 \<le> a \<and> x = Fin a)"
  by (cases x) auto

lemma not_fle_imp_not_flt: "\<not> fle x (Fin 0) \<Longrightarrow> \<not> flt x (Fin 0)"
  by (cases x) auto

lemma rnd_not_flt: "0 \<le> x \<Longrightarrow> \<not> flt (rnd x) (Fin 0)"
  using rnd_nonneg [of x] by auto

lemma fmul_not_flt:
  assumes "\<not> flt x (Fin 0)" and "\<not> flt y (Fin 0)"
  shows "\<not> flt (fmul x y) (Fin 0)"
  using assms unfolding not_flt_zero_iff [of x] not_flt_zero_iff [of y]
  by (auto simp: rnd_not_flt split: if_splits)




lemma fmul_not_fgt:
  assumes "\<not> flt x (Fin 0)" and "fle y (Fin 0)"
  shows "\<not> fgt (fmul x y) (Fin 0)"
proof -
  have r: "\<not> flt (Fin 0) (rnd z)" if "z \<le> 0" for z
    using rnd_nonpos [OF that] by auto
  show ?thesis
    using assms unfolding not_flt_zero_iff [of x]
    by (cases y) (auto simp: fgt_def r mult_nonneg_nonpos split: if_splits)
qed

lemma fgt_of_not_fle: "x \<noteq> NaN \<Longrightarrow> y \<noteq> NaN \<Longrightarrow> \<not> fle x y \<Longrightarrow> fgt x y"
  by (cases x; cases y) (auto simp: fgt_def)

lemma fadd_NaN_left: "fadd x y \<noteq> NaN \<Longrightarrow> x \<noteq> NaN"
  by (cases x; cases y) auto

lemma feq_imp_eq: "feq x y \<Longrightarrow> x = y \<and> x \<noteq> NaN"
  by (simp add: feq_def)

subsection \<open>The interpolator and the table\<close>

lemma interpLoopD_unrolled:
  "interpLoopD [x0, x1, x2, x3] [a, b, c, d] p 0 =
     (if fge p x0 \<and> fle p x1
        then Inr (fadd a (fmul (fdiv (fsub p x0) (fsub x1 x0)) (fsub b a)))
      else if fge p x1 \<and> fle p x2
        then Inr (fadd b (fmul (fdiv (fsub p x1) (fsub x2 x1)) (fsub c b)))
      else if fge p x2 \<and> fle p x3
        then Inr (fadd c (fmul (fdiv (fsub p x2) (fsub x3 x2)) (fsub d c)))
      else Inl InterpolationFailure_D)"
  apply (subst interpLoopD.simps)
  apply (subst interpLoopD.simps)
  apply (subst interpLoopD.simps)
  apply (subst interpLoopD.simps)
  apply (simp add: Let_def)
  done

lemma fuelLphInterpSimpleD_found:
  assumes "find (\<lambda>r. feq (kva_D r) g) table = Some row"
  shows "fuelLphInterpSimpleD g p table =
     (if fle p (Fin 0.25) then Inr (lph25_D row)
      else if fge p (Fin 1) then Inr (lph100_D row)
      else interpLoopD [Fin 0.25, Fin 0.5, Fin 0.75, Fin 1]
             [lph25_D row, lph50_D row, lph75_D row, lph100_D row] p 0)"
  using assms by (simp add: fuelLphInterpSimpleD_def Let_def)

lemma fuelLphInterpSimpleD_at_breakpoints:
  assumes "find (\<lambda>r. feq (kva_D r) g) table = Some row"
  shows "fuelLphInterpSimpleD g (Fin 0.25) table = Inr (lph25_D row)"
    and "fuelLphInterpSimpleD g (Fin 0.5) table =
           Inr (fadd (lph25_D row) (fmul (Fin 1) (fsub (lph50_D row) (lph25_D row))))"
    and "fuelLphInterpSimpleD g (Fin 0.75) table =
           Inr (fadd (lph50_D row) (fmul (Fin 1) (fsub (lph75_D row) (lph50_D row))))"
    and "fuelLphInterpSimpleD g (Fin 1) table = Inr (lph100_D row)"
proof -
  have t: "fdiv (fsub (Fin 0.5) (Fin 0.25)) (fsub (Fin 0.5) (Fin 0.25)) = Fin 1"
    "fdiv (fsub (Fin 0.75) (Fin 0.5)) (fsub (Fin 0.75) (Fin 0.5)) = Fin 1"
    by (simp_all add: eval_rnd)
  show "fuelLphInterpSimpleD g (Fin 0.25) table = Inr (lph25_D row)"
    by (simp add: fuelLphInterpSimpleD_found [OF assms])
  show "fuelLphInterpSimpleD g (Fin 1) table = Inr (lph100_D row)"
    by (simp add: fuelLphInterpSimpleD_found [OF assms] fge_def)
  show "fuelLphInterpSimpleD g (Fin 0.5) table =
           Inr (fadd (lph25_D row) (fmul (Fin 1) (fsub (lph50_D row) (lph25_D row))))"
    unfolding fuelLphInterpSimpleD_found [OF assms] interpLoopD_unrolled
    using t(1) by (simp add: fge_def)
  show "fuelLphInterpSimpleD g (Fin 0.75) table =
           Inr (fadd (lph50_D row) (fmul (Fin 1) (fsub (lph75_D row) (lph50_D row))))"
    unfolding fuelLphInterpSimpleD_found [OF assms] interpLoopD_unrolled
    using t(2) by (simp add: fge_def)
qed

lemma mkPointD_sel [simp]:
  "kva_D (mkPointD k a b c d) = lit k" "lph25_D (mkPointD k a b c d) = lit a"
  "lph50_D (mkPointD k a b c d) = lit b" "lph75_D (mkPointD k a b c d) = lit c"
  "lph100_D (mkPointD k a b c d) = lit d"
  by (simp_all add: mkPointD_def)

lemma find_125_D:
  "find (\<lambda>r. feq (kva_D r) (Fin 125)) fuelCurveTableD = Some (mkPointD 125 9.8 15.5 22.0 28.0)"
  by (simp add: fuelCurveTableD_def eval_rnd)

lemma find_180_D:
  "find (\<lambda>r. feq (kva_D r) (Fin 180)) fuelCurveTableD = Some (mkPointD 180 13.6 22.3 31.8 41.3)"
  by (simp add: fuelCurveTableD_def eval_rnd)

text \<open>
  The ratings of the built-in table are distinct doubles, so the lookup yields every row
  at its own rating; and at the two inner breakpoints the interpolation with \<open>t = 1\<close> is
  exact on each of its rows.
\<close>

lemma find_unique_row_D:
  assumes "row \<in> set table" and "feq (kva_D row) (kva_D row)"
    and "\<forall>r \<in> set table. feq (kva_D r) (kva_D row) \<longrightarrow> r = row"
  shows "find (\<lambda>r. feq (kva_D r) (kva_D row)) table = Some row"
  using assms by (induction table) auto

lemma fuelCurveTableD_ratings:
  "map kva_D fuelCurveTableD =
     map Fin [10, 15, 20, 30, 40, 50, 60, 75, 100, 125, 150, 180, 200, 250, 300, 350, 400,
              500, 600, 800, 1000, 1250]"
  by (simp add: fuelCurveTableD_def eval_rnd)

lemma fuelCurveTableD_find:
  assumes "row \<in> set fuelCurveTableD"
  shows "find (\<lambda>r. feq (kva_D r) (kva_D row)) fuelCurveTableD = Some row"
proof -
  have d: "distinct (map kva_D fuelCurveTableD)" and n: "NaN \<notin> set (map kva_D fuelCurveTableD)"
    unfolding fuelCurveTableD_ratings by simp_all
  have "kva_D row \<in> set (map kva_D fuelCurveTableD)"
    using assms by simp
  then have "kva_D row \<noteq> NaN"
    using n by metis
  then have "feq (kva_D row) (kva_D row)"
    by (simp add: feq_def)
  moreover have "\<forall>r \<in> set fuelCurveTableD. feq (kva_D r) (kva_D row) \<longrightarrow> r = row"
    using d assms by (auto simp: feq_def distinct_map inj_on_def)
  ultimately show ?thesis
    using assms by (intro find_unique_row_D)
qed

lemma fuelCurveTableD_exact:
  "list_all (\<lambda>row.
       fadd (lph25_D row) (fmul (Fin 1) (fsub (lph50_D row) (lph25_D row))) = lph50_D row
     \<and> fadd (lph50_D row) (fmul (Fin 1) (fsub (lph75_D row) (lph50_D row))) = lph75_D row)
     fuelCurveTableD"
  by (simp add: fuelCurveTableD_def mkPointD_def eval_rnd)

subsection \<open>The control flow, with doubles\<close>

text \<open>
  The clamp, the lookup of the rating, the bracket search and the order of the four
  validation gates, stated with exact arithmetic in C3 and C6 to C8 below, are the same
  with doubles: they only compare numbers.
\<close>

lemma fuelLphInterpSimpleD_missing:
  assumes "find (\<lambda>r. feq (kva_D r) g) table = None"
  shows "fuelLphInterpSimpleD g p table = Inl (UnknownGensetRating_D g)"
  using assms by (simp add: fuelLphInterpSimpleD_def)

lemma fuelLphInterpSimpleD_clamp:
  assumes "find (\<lambda>r. feq (kva_D r) g) table = Some row"
  shows "(fle p (Fin 0.25) \<longrightarrow> fuelLphInterpSimpleD g p table = Inr (lph25_D row))
       \<and> (fge p (Fin 1) \<longrightarrow> fuelLphInterpSimpleD g p table = Inr (lph100_D row))"
  by (cases p) (simp_all add: fuelLphInterpSimpleD_found [OF assms] fge_def)

lemma fuelLphInterpSimpleD_unknown_rating:
  "((\<forall>r \<in> set table. \<not> feq (kva_D r) g) \<longrightarrow>
       fuelLphInterpSimpleD g p table = Inl (UnknownGensetRating_D g))
 \<and> ((\<exists>r \<in> set table. feq (kva_D r) g) \<longrightarrow>
       (\<forall>g'. fuelLphInterpSimpleD g p table \<noteq> Inl (UnknownGensetRating_D g')))"
proof (cases "find (\<lambda>r. feq (kva_D r) g) table")
  case None
  then show ?thesis
    by (auto simp: fuelLphInterpSimpleD_missing find_None_iff)
next
  case (Some row)
  then have "\<exists>r \<in> set table. feq (kva_D r) g"
    by (auto simp: find_Some_iff)
  then show ?thesis
    by (auto simp: fuelLphInterpSimpleD_found [OF Some] interpLoopD_unrolled)
qed

lemma fuelLphInterpSimpleD_bracket_found:
  assumes "find (\<lambda>r. feq (kva_D r) g) table = Some row"
    and "flt (Fin 0.25) p" and "flt p (Fin 1)"
  shows "\<exists>v. interpLoopD [Fin 0.25, Fin 0.5, Fin 0.75, Fin 1]
               [lph25_D row, lph50_D row, lph75_D row, lph100_D row] p 0 = Inr v
           \<and> fuelLphInterpSimpleD g p table = Inr v"
  using assms(2,3)
  by (cases p) (auto simp: fuelLphInterpSimpleD_found [OF assms(1)] interpLoopD_unrolled fge_def)

lemma fuelLphInterpSimpleD_error:
  assumes "fuelLphInterpSimpleD g p table = Inl e"
  shows "e = UnknownGensetRating_D g \<or> e = InterpolationFailure_D"
proof (cases "find (\<lambda>r. feq (kva_D r) g) table")
  case None
  with assms show ?thesis by (simp add: fuelLphInterpSimpleD_missing)
next
  case (Some row)
  with assms show ?thesis
    by (auto simp: fuelLphInterpSimpleD_found [OF Some] interpLoopD_unrolled split: if_splits)
qed

lemma bessRoiD_validation_order:
  "(bessRoiD inputs table = Inl InvalidElectricalInputs_D \<longleftrightarrow>
       fle (gensetKVA_D inputs) (Fin 0) \<or> fle (loadKVA_D inputs) (Fin 0)
       \<or> fle (powerFactor_D inputs) (Fin 0))
  \<and> (bessRoiD inputs table = Inl InvalidSizingInputs_D \<longleftrightarrow>
       \<not> (fle (gensetKVA_D inputs) (Fin 0) \<or> fle (loadKVA_D inputs) (Fin 0)
           \<or> fle (powerFactor_D inputs) (Fin 0))
     \<and> (fle (hoursPerDay_D inputs) (Fin 0) \<or> fle (bessSizeKWh_D inputs) (Fin 0)
         \<or> fle (bessPricePerKWh_D inputs) (Fin 0)))
  \<and> (bessRoiD inputs table = Inl InvalidSocWindow_D \<longleftrightarrow>
       \<not> (fle (gensetKVA_D inputs) (Fin 0) \<or> fle (loadKVA_D inputs) (Fin 0)
           \<or> fle (powerFactor_D inputs) (Fin 0))
     \<and> \<not> (fle (hoursPerDay_D inputs) (Fin 0) \<or> fle (bessSizeKWh_D inputs) (Fin 0)
           \<or> fle (bessPricePerKWh_D inputs) (Fin 0))
     \<and> (fle (socMax_D inputs) (socMin_D inputs) \<or> fgt (socMax_D inputs) (Fin 1)
         \<or> flt (socMin_D inputs) (Fin 0)))
  \<and> (bessRoiD inputs table = Inl NoChargingHeadroom_D \<longleftrightarrow>
       \<not> (fle (gensetKVA_D inputs) (Fin 0) \<or> fle (loadKVA_D inputs) (Fin 0)
           \<or> fle (powerFactor_D inputs) (Fin 0))
     \<and> \<not> (fle (hoursPerDay_D inputs) (Fin 0) \<or> fle (bessSizeKWh_D inputs) (Fin 0)
           \<or> fle (bessPricePerKWh_D inputs) (Fin 0))
     \<and> \<not> (fle (socMax_D inputs) (socMin_D inputs) \<or> fgt (socMax_D inputs) (Fin 1)
           \<or> flt (socMin_D inputs) (Fin 0))
     \<and> fge (fmul (loadKVA_D inputs) (powerFactor_D inputs))
            (fmul (gensetKVA_D inputs) (powerFactor_D inputs)))"
  unfolding bessRoiD_def Let_def
  by (auto split: if_splits sum.splits dest: fuelLphInterpSimpleD_error)

subsection \<open>What an accepted input satisfies\<close>

lemma bessRoiD_accepts_gates:
  assumes "bessRoiD inputs table = Inr r"
  shows "\<not> fle (gensetKVA_D inputs) (Fin 0)" and "\<not> fle (loadKVA_D inputs) (Fin 0)"
    and "\<not> fle (powerFactor_D inputs) (Fin 0)" and "\<not> fle (hoursPerDay_D inputs) (Fin 0)"
    and "\<not> fle (bessSizeKWh_D inputs) (Fin 0)" and "\<not> fle (bessPricePerKWh_D inputs) (Fin 0)"
    and "\<not> fle (socMax_D inputs) (socMin_D inputs)"
    and "\<not> fle (fsub (fmul (gensetKVA_D inputs) (powerFactor_D inputs))
                     (fmul (loadKVA_D inputs) (powerFactor_D inputs))) (Fin 0)"
    and "\<not> fle (fuelSavedPerDayLitres_D r) (Fin 0)"
  using assms unfolding bessRoiD_def Let_def
  by (auto split: if_splits sum.splits)

lemma bessRoiD_accepts_fields:
  assumes "bessRoiD inputs table = Inr r"
  shows "loadPct_D r = fdiv (loadKVA_D inputs) (gensetKVA_D inputs)"
    and "loadKW_D r = fmul (loadKVA_D inputs) (powerFactor_D inputs)"
    and "capex_D r = fmul (bessSizeKWh_D inputs) (bessPricePerKWh_D inputs)"
    and "annualFuelSavingsCost_D r =
           fmul (fmul (fuelSavedPerDayLitres_D r) (Fin 365)) (dieselPricePerL_D inputs)"
    and "paybackYears_D r =
          (if fgt (annualFuelSavingsCost_D r) (Fin 0)
           then Some (fdiv (capex_D r) (annualFuelSavingsCost_D r)) else None)"
    and "simpleFiveYearROI_D r =
          (if fgt (capex_D r) (Fin 0)
           then Some (fmul (fdiv (fsub (fmul (annualFuelSavingsCost_D r) (Fin 5)) (capex_D r))
                              (capex_D r)) (Fin 100))
           else None)"
    and "bessCyclesPerDay_D r =
          (let loadKW = fmul (loadKVA_D inputs) (powerFactor_D inputs);
               gensetKW = fmul (gensetKVA_D inputs) (powerFactor_D inputs);
               headroomKW = fsub gensetKW loadKW
           in if fgt headroomKW (Fin 0) \<and> fgt (bessSizeKWh_D inputs) (Fin 0)
                  \<and> fgt (socMax_D inputs) (socMin_D inputs)
              then (let denom = fmul (fmul (bessSizeKWh_D inputs)
                                        (fsub (socMax_D inputs) (socMin_D inputs)))
                                  (fadd headroomKW loadKW)
                    in if fne denom (Fin 0)
                       then fdiv (fmul (fmul (hoursPerDay_D inputs) headroomKW) loadKW) denom
                       else Fin 0)
              else Fin 0)"
  using assms unfolding bessRoiD_def Let_def
  by (auto split: if_splits sum.splits)

lemma bessRoiD_price_update:
  "bessRoiD (inputs\<lparr>dieselPricePerL_D := d\<rparr>) table =
     (case bessRoiD inputs table of
        Inl e \<Rightarrow> Inl e
      | Inr r \<Rightarrow>
          Inr (r\<lparr> annualFuelOnlyCost_D := fmul (annualFuelOnlyLitres_D r) d,
                   annualFuelSavingsCost_D := fmul (annualFuelSavingsLitres_D r) d,
                   paybackYears_D :=
                     (if fgt (fmul (annualFuelSavingsLitres_D r) d) (Fin 0)
                      then Some (fdiv (capex_D r) (fmul (annualFuelSavingsLitres_D r) d))
                      else None),
                   simpleFiveYearROI_D :=
                     (if fgt (capex_D r) (Fin 0)
                      then Some (fmul (fdiv (fsub (fmul (fmul (annualFuelSavingsLitres_D r) d)
                                                    (Fin 5))
                                              (capex_D r)) (capex_D r)) (Fin 100))
                      else None) \<rparr>))"
proof (cases "fuelLphInterpSimpleD (gensetKVA_D inputs)
                (fdiv (loadKVA_D inputs) (gensetKVA_D inputs)) table")
  case (Inl e)
  then show ?thesis by (simp add: bessRoiD_def Let_def)
next
  case fb: (Inr fb)
  show ?thesis
  proof (cases "fuelLphInterpSimpleD (gensetKVA_D inputs) (Fin 1) table")
    case (Inl e)
    with fb show ?thesis by (simp add: bessRoiD_def Let_def)
  next
    case ff: (Inr ff)
    show ?thesis using fb ff by (simp add: bessRoiD_def Let_def)
  qed
qed

subsection \<open>Evaluations\<close>

lemmas eval_bessRoiD = bessRoiD_def fuelLphInterpSimpleD_def interpLoopD_unrolled eval_rnd

lemma scenarioAD_value:
  "bessRoiD scenarioAD fuelCurveTableD = Inr
   \<lparr> loadPct_D = lit 0.448,
     loadKW_D = lit 44.800000000000004,
     fuelLph_D = lit 14.3144,
     annualFuelOnlyLitres_D = lit 52247.560000000005,
     annualFuelOnlyCost_D = lit 156742.68000000002,
     dieselKWhPerL_D = lit 3.129715531213324,
     dailyBESSEnergyKWh_D = lit 55.40848376460067,
     fuelSavedPerDayLitres_D = lit 17.703999999999994,
     annualFuelSavingsLitres_D = lit 6461.959999999997,
     annualFuelSavingsCost_D = lit 19385.87999999999,
     bessCyclesPerDay_D = lit 0.5944615384615385,
     capex_D = lit 338000,
     paybackYears_D = Some (lit 17.435370486147658),
     simpleFiveYearROI_D = Some (lit (- 71.32266272189351)) \<rparr>"
  by (simp add: scenarioAD_def find_125_D eval_bessRoiD)

lemma scenarioAD_price_0_value:
  "bessRoiD (scenarioAD\<lparr>dieselPricePerL_D := lit 0\<rparr>) fuelCurveTableD = Inr
   \<lparr> loadPct_D = lit 0.448,
     loadKW_D = lit 44.800000000000004,
     fuelLph_D = lit 14.3144,
     annualFuelOnlyLitres_D = lit 52247.560000000005,
     annualFuelOnlyCost_D = Fin 0,
     dieselKWhPerL_D = lit 3.129715531213324,
     dailyBESSEnergyKWh_D = lit 55.40848376460067,
     fuelSavedPerDayLitres_D = lit 17.703999999999994,
     annualFuelSavingsLitres_D = lit 6461.959999999997,
     annualFuelSavingsCost_D = Fin 0,
     bessCyclesPerDay_D = lit 0.5944615384615385,
     capex_D = lit 338000,
     paybackYears_D = None,
     simpleFiveYearROI_D = Some (Fin (- 100)) \<rparr>"
  by (simp add: bessRoiD_price_update scenarioAD_value eval_rnd)

lemma scenarioAD_price_minus_2_value:
  "bessRoiD (scenarioAD\<lparr>dieselPricePerL_D := lit (- 2)\<rparr>) fuelCurveTableD = Inr
   \<lparr> loadPct_D = lit 0.448,
     loadKW_D = lit 44.800000000000004,
     fuelLph_D = lit 14.3144,
     annualFuelOnlyLitres_D = lit 52247.560000000005,
     annualFuelOnlyCost_D = lit (- 104495.12000000001),
     dieselKWhPerL_D = lit 3.129715531213324,
     dailyBESSEnergyKWh_D = lit 55.40848376460067,
     fuelSavedPerDayLitres_D = lit 17.703999999999994,
     annualFuelSavingsLitres_D = lit 6461.959999999997,
     annualFuelSavingsCost_D = lit (- 12923.919999999995),
     bessCyclesPerDay_D = lit 0.5944615384615385,
     capex_D = lit 338000,
     paybackYears_D = None,
     simpleFiveYearROI_D = Some (lit (- 119.118224852071)) \<rparr>"
  by (simp add: bessRoiD_price_update scenarioAD_value eval_rnd)

text \<open>Genset 180 kVA, load 12 kVA, power factor 0.7, the rest as in scenario A.\<close>

lemma cyclesMismatch_value:
  "bessRoiD (scenarioAD\<lparr>gensetKVA_D := lit 180, loadKVA_D := lit 12, powerFactor_D := lit 0.7\<rparr>)
     fuelCurveTableD = Inr
   \<lparr> loadPct_D = lit 0.06666666666666667,
     loadKW_D = lit 8.399999999999999,
     fuelLph_D = lit 13.6,
     annualFuelOnlyLitres_D = lit 49640,
     annualFuelOnlyCost_D = lit 148920,
     dieselKWhPerL_D = lit 0.6176470588235293,
     dailyBESSEnergyKWh_D = lit 66.99411764705881,
     fuelSavedPerDayLitres_D = lit 108.46666666666667,
     annualFuelSavingsLitres_D = lit 39590.333333333336,
     annualFuelSavingsCost_D = lit 118771,
     bessCyclesPerDay_D = lit 0.18846153846153843,
     capex_D = lit 338000,
     paybackYears_D = Some (lit 2.8458125299946957),
     simpleFiveYearROI_D = Some (lit 75.69674556213018) \<rparr>"
  by (simp add: scenarioAD_def find_180_D eval_bessRoiD)

lemma cyclesMismatch_collapsed:
  "specCyclesCollapsedD
     (scenarioAD\<lparr>gensetKVA_D := lit 180, loadKVA_D := lit 12, powerFactor_D := lit 0.7\<rparr>)
   = lit 0.18846153846153846"
  by (simp add: scenarioAD_def specCyclesCollapsedD_def eval_rnd)

text \<open>Scenario A with \<open>hoursPerDay = 1e306\<close> and diesel at price 0.\<close>

lemma overflow_value:
  "bessRoiD (scenarioAD\<lparr>hoursPerDay_D := lit (10 ^ 306), dieselPricePerL_D := lit 0\<rparr>)
     fuelCurveTableD = Inr
   \<lparr> loadPct_D = lit 0.448,
     loadKW_D = lit 44.800000000000004,
     fuelLph_D = lit 14.3144,
     annualFuelOnlyLitres_D = PInf,
     annualFuelOnlyCost_D = NaN,
     dieselKWhPerL_D = lit 3.129715531213324,
     dailyBESSEnergyKWh_D = lit (5540848376460068 * 10 ^ 291),
     fuelSavedPerDayLitres_D = lit (17703999999999998 * 10 ^ 290),
     annualFuelSavingsLitres_D = PInf,
     annualFuelSavingsCost_D = NaN,
     bessCyclesPerDay_D = PInf,
     capex_D = lit 338000,
     paybackYears_D = None,
     simpleFiveYearROI_D = Some NaN \<rparr>"
  by (simp add: scenarioAD_def find_125_D eval_bessRoiD)


lemma breakpoint_rounding_value:
  "fuelLphInterpSimpleD (lit 10) (Fin 0.5) [mkPointD 10 0.2 0.9 1.7 2.1]
     = Inr (lit 0.8999999999999999)"
  by (simp add: eval_bessRoiD)

section \<open>The claims\<close>

text \<open>
  C1, as stated: for the inputs of scenario A (genset 125 kVA, load 56 kVA, power factor
  0.8, 10 hours a day, diesel at 3 per litre, a 520 kWh battery at 650 per kWh, SOC window
  0.2 to 1) and the built-in table, the result has \<open>loadKW = 44.8\<close>. In doubles the
  product \<open>56 * 0.8\<close> is 44.800000000000004, the double next above 44.8, so the claim
  fails on \<open>loadKW\<close>.
\<close>

theorem scenarioA_loadKW_counterexample:
  "map_sum id loadKW_D (bessRoiD scenarioAD fuelCurveTableD) = Inr (lit 44.800000000000004)
 \<and> \<not> feq (lit 44.800000000000004) (lit 44.8)"
  using scenarioAD_value lits_differ(1) by simp

text \<open>
  C1, amended: for the inputs of scenario A and the built-in table, \<open>bessRoi\<close> succeeds;
  its result has \<open>loadPct = 0.448\<close>, \<open>loadKW = 44.800000000000004\<close> (the double product
  \<open>56 * 0.8\<close>, one unit in the last place above 44.8), \<open>capex = 338000\<close>, and
  \<open>paybackYears\<close> is present and strictly positive: it is 17.435370486147658.
\<close>

theorem bessRoiD_scenarioA:
  "\<exists>r. bessRoiD scenarioAD fuelCurveTableD = Inr r \<and> loadPct_D r = lit 0.448
      \<and> loadKW_D r = fmul (lit 56) (lit 0.8) \<and> loadKW_D r = lit 44.800000000000004
      \<and> capex_D r = lit 338000 \<and> paybackYears_D r = Some (lit 17.435370486147658)
      \<and> fgt (lit 17.435370486147658) (Fin 0)"
proof -
  have "fmul (lit 56) (lit 0.8) = lit 44.800000000000004"
    and "fgt (lit 17.435370486147658) (Fin 0)"
    by (simp_all add: eval_rnd)
  then show ?thesis using scenarioAD_value by simp
qed

text \<open>
  C2, as stated: for every accepted input whose \<open>annualFuelSavingsCost\<close> is 0, both
  \<open>paybackYears\<close> and \<open>simpleFiveYearROI\<close> are absent. The code gates the five-year
  ROI on \<open>capex > 0\<close>, not on the savings, so the claim fails: scenario A with diesel at
  price 0 is accepted, saves 0 in cost, has no payback period, and has a five-year ROI of
  -100 percent.
\<close>

theorem zero_price_roi_present_counterexample:
  "map_sum id annualFuelSavingsCost_D
     (bessRoiD (scenarioAD\<lparr>dieselPricePerL_D := lit 0\<rparr>) fuelCurveTableD) = Inr (Fin 0)
 \<and> map_sum id paybackYears_D
     (bessRoiD (scenarioAD\<lparr>dieselPricePerL_D := lit 0\<rparr>) fuelCurveTableD) = Inr None
 \<and> map_sum id simpleFiveYearROI_D
     (bessRoiD (scenarioAD\<lparr>dieselPricePerL_D := lit 0\<rparr>) fuelCurveTableD)
      = Inr (Some (Fin (- 100)))"
  using scenarioAD_price_0_value by simp

text \<open>
  C2, amended: for every accepted input whose \<open>annualFuelSavingsCost\<close> is 0,
  \<open>paybackYears\<close> is absent, and \<open>simpleFiveYearROI\<close> is present whenever \<open>capex > 0\<close>
  (it is then the \<open>((0 * 5 - capex) / capex) * 100\<close> of the code, which is -100 in
  scenario A) and absent otherwise.
\<close>

theorem bessRoiD_zero_savings:
  assumes "bessRoiD inputs table = Inr r" and "feq (annualFuelSavingsCost_D r) (Fin 0)"
  shows "paybackYears_D r = None
       \<and> (fgt (capex_D r) (Fin 0) \<longrightarrow>
            simpleFiveYearROI_D r =
              Some (fmul (fdiv (fsub (fmul (Fin 0) (Fin 5)) (capex_D r)) (capex_D r)) (Fin 100)))
       \<and> (\<not> fgt (capex_D r) (Fin 0) \<longrightarrow> simpleFiveYearROI_D r = None)"
proof -
  have z: "annualFuelSavingsCost_D r = Fin 0"
    using assms(2) by (simp add: feq_def)
  show ?thesis
    using bessRoiD_accepts_fields(5,6) [OF assms(1)] by (simp add: z fgt_def)
qed

theorem bessRoiD_zero_savings_witness:
  "\<exists>r. bessRoiD (scenarioAD\<lparr>dieselPricePerL_D := lit 0\<rparr>) fuelCurveTableD = Inr r
     \<and> feq (annualFuelSavingsCost_D r) (Fin 0) \<and> fgt (capex_D r) (Fin 0)
     \<and> paybackYears_D r = None \<and> simpleFiveYearROI_D r = Some (Fin (- 100))"
proof -
  have c: "fgt (lit 338000) (Fin 0)"
    by (simp add: eval_rnd)
  show ?thesis
    using bessRoiD_zero_savings [OF scenarioAD_price_0_value] scenarioAD_price_0_value c
    by simp
qed



text \<open>
  C4, as stated: for every accepted input the cycles per day computed with the
  unsimplified denominator are numerically identical to the collapsed form. In doubles
  \<open>(gensetKW - loadKW) + loadKW\<close> need not be \<open>gensetKW\<close>: for genset 180 kVA, load
  12 kVA and power factor 0.7 (the rest as in scenario A) \<open>gensetKW\<close> is
  125.99999999999999 and the sum is 126, and the code returns 0.18846153846153843 where
  the collapsed form gives 0.18846153846153846.
\<close>

theorem cycles_collapsed_counterexample:
  "map_sum id bessCyclesPerDay_D
     (bessRoiD (scenarioAD\<lparr>gensetKVA_D := lit 180, loadKVA_D := lit 12,
                            powerFactor_D := lit 0.7\<rparr>) fuelCurveTableD)
      = Inr (lit 0.18846153846153843)
 \<and> specCyclesCollapsedD (scenarioAD\<lparr>gensetKVA_D := lit 180, loadKVA_D := lit 12,
                                      powerFactor_D := lit 0.7\<rparr>)
      = lit 0.18846153846153846
 \<and> \<not> feq (lit 0.18846153846153843) (lit 0.18846153846153846)"
  using cyclesMismatch_value cyclesMismatch_collapsed lits_differ(2) by simp

text \<open>
  C4, amended: for every accepted input without a NaN field for which
  \<open>(gensetKW - loadKW) + loadKW\<close> evaluates to \<open>gensetKW\<close>, the cycles per day that
  \<open>bessRoi\<close> computes with the unsimplified denominator are identical to the collapsed
  form of the specification; otherwise the two can differ in the last bits.
\<close>

theorem bessCyclesPerDayD_collapsed:
  assumes "bessRoiD inputs table = Inr r" and "noNaNFields inputs"
    and "feq (fadd (fsub (fmul (gensetKVA_D inputs) (powerFactor_D inputs))
                         (fmul (loadKVA_D inputs) (powerFactor_D inputs)))
                   (fmul (loadKVA_D inputs) (powerFactor_D inputs)))
             (fmul (gensetKVA_D inputs) (powerFactor_D inputs))"
  shows "bessCyclesPerDay_D r = specCyclesCollapsedD inputs"
proof -
  let ?l = "fmul (loadKVA_D inputs) (powerFactor_D inputs)"
  let ?g = "fmul (gensetKVA_D inputs) (powerFactor_D inputs)"
  let ?h = "fsub ?g ?l"
  note g = bessRoiD_accepts_gates [OF assms(1)]
  have sum: "fadd ?h ?l = ?g"
    by (rule conjunct1 [OF feq_imp_eq [OF assms(3)]])
  have "fadd ?h ?l \<noteq> NaN"
    by (rule conjunct2 [OF feq_imp_eq [OF assms(3)]])
  then have "?h \<noteq> NaN" by (rule fadd_NaN_left)
  then have h: "fgt ?h (Fin 0)" and nh: "\<not> fle ?h (Fin 0)"
    using g(8) by (simp_all add: fgt_of_not_fle)
  have b: "fgt (bessSizeKWh_D inputs) (Fin 0)"
    using g(5) assms(2) by (simp add: fgt_of_not_fle noNaNFields_def)
  have s: "fgt (socMax_D inputs) (socMin_D inputs)"
    using g(7) assms(2) by (simp add: fgt_of_not_fle noNaNFields_def)
  show ?thesis
    unfolding bessRoiD_accepts_fields(7) [OF assms(1)] specCyclesCollapsedD_def Let_def
    using h nh b s by (simp add: sum fne_def)
qed

theorem bessCyclesPerDayD_collapsed_witness:
  "\<exists>r. bessRoiD scenarioAD fuelCurveTableD = Inr r \<and> noNaNFields scenarioAD
      \<and> feq (fadd (fsub (fmul (lit 125) (lit 0.8)) (fmul (lit 56) (lit 0.8)))
                   (fmul (lit 56) (lit 0.8)))
             (fmul (lit 125) (lit 0.8))
      \<and> bessCyclesPerDay_D r = specCyclesCollapsedD scenarioAD
      \<and> specCyclesCollapsedD scenarioAD = lit 0.5944615384615385"
proof -
  have n: "noNaNFields scenarioAD"
    by (simp add: noNaNFields_def scenarioAD_def eval_rnd)
  have s: "feq (fadd (fsub (fmul (lit 125) (lit 0.8)) (fmul (lit 56) (lit 0.8)))
                     (fmul (lit 56) (lit 0.8)))
               (fmul (lit 125) (lit 0.8))"
    by (simp add: eval_rnd)
  have s': "feq (fadd (fsub (fmul (gensetKVA_D scenarioAD) (powerFactor_D scenarioAD))
                         (fmul (loadKVA_D scenarioAD) (powerFactor_D scenarioAD)))
                   (fmul (loadKVA_D scenarioAD) (powerFactor_D scenarioAD)))
             (fmul (gensetKVA_D scenarioAD) (powerFactor_D scenarioAD))"
    using s by (simp add: scenarioAD_def)
  show ?thesis
    using bessCyclesPerDayD_collapsed [OF scenarioAD_value n s'] scenarioAD_value n s
    by simp
qed

text \<open>
  C5, as stated: for every row present in the table, \<open>fuelLphInterpSimple\<close> returns
  exactly the row's sample at each of the four breakpoints. At 0.50 and 0.75 the code
  goes through the interpolation loop with \<open>t = 1\<close> and returns \<open>y0 + 1 * (y1 - y0)\<close>,
  which rounds: for a row with \<open>lph25 = 0.2\<close> and \<open>lph50 = 0.9\<close> it returns
  0.8999999999999999 at 0.50.
\<close>

theorem breakpoint_rounding_counterexample:
  "fuelLphInterpSimpleD (lit 10) (Fin 0.5) [mkPointD 10 0.2 0.9 1.7 2.1]
     = Inr (lit 0.8999999999999999)
 \<and> lph50_D (mkPointD 10 0.2 0.9 1.7 2.1) = lit 0.9
 \<and> \<not> feq (lit 0.8999999999999999) (lit 0.9)"
  using breakpoint_rounding_value lits_differ(3) by simp

text \<open>
  C5, amended: for the row that the table holds for a rating, \<open>fuelLphInterpSimple\<close>
  returns exactly \<open>lph25\<close> at 0.25 and \<open>lph100\<close> at 1.00; at 0.50 it returns
  \<open>lph25 + 1 * (lph50 - lph25)\<close> and at 0.75 \<open>lph50 + 1 * (lph75 - lph50)\<close>, evaluated
  in doubles. For every row of the built-in table these are exactly \<open>lph50\<close> and
  \<open>lph75\<close>, so there all four breakpoints return the row's samples.
\<close>

theorem fuelLphInterpSimpleD_breakpoints:
  "(find (\<lambda>r. feq (kva_D r) g) table = Some row \<longrightarrow>
       fuelLphInterpSimpleD g (Fin 0.25) table = Inr (lph25_D row)
     \<and> fuelLphInterpSimpleD g (Fin 0.5) table =
         Inr (fadd (lph25_D row) (fmul (Fin 1) (fsub (lph50_D row) (lph25_D row))))
     \<and> fuelLphInterpSimpleD g (Fin 0.75) table =
         Inr (fadd (lph50_D row) (fmul (Fin 1) (fsub (lph75_D row) (lph50_D row))))
     \<and> fuelLphInterpSimpleD g (Fin 1) table = Inr (lph100_D row))
 \<and> (\<forall>row \<in> set fuelCurveTableD.
       fuelLphInterpSimpleD (kva_D row) (Fin 0.25) fuelCurveTableD = Inr (lph25_D row)
     \<and> fuelLphInterpSimpleD (kva_D row) (Fin 0.5) fuelCurveTableD = Inr (lph50_D row)
     \<and> fuelLphInterpSimpleD (kva_D row) (Fin 0.75) fuelCurveTableD = Inr (lph75_D row)
     \<and> fuelLphInterpSimpleD (kva_D row) (Fin 1) fuelCurveTableD = Inr (lph100_D row))"
proof (intro conjI impI ballI)
  assume f: "find (\<lambda>r. feq (kva_D r) g) table = Some row"
  show "fuelLphInterpSimpleD g (Fin 0.25) table = Inr (lph25_D row)"
    by (rule fuelLphInterpSimpleD_at_breakpoints(1) [OF f])
  show "fuelLphInterpSimpleD g (Fin 0.5) table =
         Inr (fadd (lph25_D row) (fmul (Fin 1) (fsub (lph50_D row) (lph25_D row))))"
    by (rule fuelLphInterpSimpleD_at_breakpoints(2) [OF f])
  show "fuelLphInterpSimpleD g (Fin 0.75) table =
         Inr (fadd (lph50_D row) (fmul (Fin 1) (fsub (lph75_D row) (lph50_D row))))"
    by (rule fuelLphInterpSimpleD_at_breakpoints(3) [OF f])
  show "fuelLphInterpSimpleD g (Fin 1) table = Inr (lph100_D row)"
    by (rule fuelLphInterpSimpleD_at_breakpoints(4) [OF f])
next
  fix row assume r: "row \<in> set fuelCurveTableD"
  note f = fuelCurveTableD_find [OF r]
  have e: "fadd (lph25_D row) (fmul (Fin 1) (fsub (lph50_D row) (lph25_D row))) = lph50_D row"
    "fadd (lph50_D row) (fmul (Fin 1) (fsub (lph75_D row) (lph50_D row))) = lph75_D row"
    using fuelCurveTableD_exact r by (auto simp: list_all_iff)
  show "fuelLphInterpSimpleD (kva_D row) (Fin 0.25) fuelCurveTableD = Inr (lph25_D row)"
    by (rule fuelLphInterpSimpleD_at_breakpoints(1) [OF f])
  show "fuelLphInterpSimpleD (kva_D row) (Fin 0.5) fuelCurveTableD = Inr (lph50_D row)"
    using fuelLphInterpSimpleD_at_breakpoints(2) [OF f] e(1) by simp
  show "fuelLphInterpSimpleD (kva_D row) (Fin 0.75) fuelCurveTableD = Inr (lph75_D row)"
    using fuelLphInterpSimpleD_at_breakpoints(3) [OF f] e(2) by simp
  show "fuelLphInterpSimpleD (kva_D row) (Fin 1) fuelCurveTableD = Inr (lph100_D row)"
    by (rule fuelLphInterpSimpleD_at_breakpoints(4) [OF f])
qed

theorem fuelLphInterpSimpleD_breakpoints_witness:
  "mkPointD 125 9.8 15.5 22.0 28.0 \<in> set fuelCurveTableD
 \<and> fuelLphInterpSimpleD (lit 125) (Fin 0.25) fuelCurveTableD = Inr (lit 9.8)
 \<and> fuelLphInterpSimpleD (lit 125) (Fin 0.5) fuelCurveTableD = Inr (lit 15.5)
 \<and> fuelLphInterpSimpleD (lit 125) (Fin 0.75) fuelCurveTableD = Inr (lit 22.0)
 \<and> fuelLphInterpSimpleD (lit 125) (Fin 1) fuelCurveTableD = Inr (lit 28.0)
 \<and> find (\<lambda>r. feq (kva_D r) (lit 10)) [mkPointD 10 0.2 0.9 1.7 2.1]
      = Some (mkPointD 10 0.2 0.9 1.7 2.1)
 \<and> fuelLphInterpSimpleD (lit 10) (Fin 0.5) [mkPointD 10 0.2 0.9 1.7 2.1]
      = Inr (fadd (lit 0.2) (fmul (Fin 1) (fsub (lit 0.9) (lit 0.2))))"
proof -
  have m: "mkPointD 125 9.8 15.5 22.0 28.0 \<in> set fuelCurveTableD"
    by (simp add: fuelCurveTableD_def)
  have f: "find (\<lambda>r. feq (kva_D r) (lit 10)) [mkPointD 10 0.2 0.9 1.7 2.1]
      = Some (mkPointD 10 0.2 0.9 1.7 2.1)"
    by (simp add: eval_rnd)
  show ?thesis
    using fuelLphInterpSimpleD_breakpoints
        [of "lit 10" "[mkPointD 10 0.2 0.9 1.7 2.1]" "mkPointD 10 0.2 0.9 1.7 2.1"] m f
    by auto
qed

text \<open>
  C6. For the row that the table holds for a rating and every real \<open>p\<close>: if
  \<open>p \<le> 0.25\<close> then \<open>fuelLphInterpSimple\<close> returns the row's \<open>lph25\<close>, and if
  \<open>p \<ge> 1.0\<close> it returns the row's \<open>lph100\<close>; there is no extrapolation.
\<close>

theorem fuelLphInterpSimple_clamp:
  assumes "find (\<lambda>r. kva r = g) table = Some row"
  shows "(p \<le> 0.25 \<longrightarrow> fuelLphInterpSimple g p table = Inr (lph25 row))
       \<and> (p \<ge> 1.0 \<longrightarrow> fuelLphInterpSimple g p table = Inr (lph100 row))"
  by (simp add: fuelLphInterpSimple_found [OF assms])

theorem fuelLphInterpSimple_clamp_witness:
  "fuelLphInterpSimple 125 0 fuelCurveTable = Inr 9.8
 \<and> fuelLphInterpSimple 125 0.1 fuelCurveTable = Inr 9.8
 \<and> fuelLphInterpSimple 125 (- 3) fuelCurveTable = Inr 9.8
 \<and> fuelLphInterpSimple 125 1.2 fuelCurveTable = Inr 28.0
 \<and> fuelLphInterpSimple 125 7 fuelCurveTable = Inr 28.0"
  using fuelLphInterpSimple_clamp [OF find_125, of 0]
    fuelLphInterpSimple_clamp [OF find_125, of "0.1"]
    fuelLphInterpSimple_clamp [OF find_125, of "- 3"]
    fuelLphInterpSimple_clamp [OF find_125, of "1.2"]
    fuelLphInterpSimple_clamp [OF find_125, of 7]
  by (simp add: mkPoint_def)

text \<open>
  C7. When no row of the table has the rating \<open>g\<close> (9999 with the built-in table, for
  one), \<open>fuelLphInterpSimple\<close> signals \<open>UnknownGensetRating g\<close> whatever the load
  fraction is; when a row has the rating, it never signals \<open>UnknownGensetRating\<close>.
\<close>

theorem fuelLphInterpSimple_unknown_rating:
  "(g \<notin> kva ` set table \<longrightarrow> fuelLphInterpSimple g p table = Inl (UnknownGensetRating g))
 \<and> (g \<in> kva ` set table \<longrightarrow>
       (\<forall>g'. fuelLphInterpSimple g p table \<noteq> Inl (UnknownGensetRating g')))"
proof (cases "find (\<lambda>r. kva r = g) table")
  case None
  then show ?thesis
    using find_rating_None [of g table] by (simp add: fuelLphInterpSimple_missing)
next
  case (Some row)
  then have "g \<in> kva ` set table"
    using find_rating_None [of g table] by simp
  then show ?thesis
    by (simp add: fuelLphInterpSimple_found [OF Some])
qed

theorem fuelLphInterpSimple_unknown_rating_witness:
  "fuelLphInterpSimple 9999 0.5 fuelCurveTable = Inl (UnknownGensetRating 9999)
 \<and> fuelLphInterpSimple 9999 (- 1) fuelCurveTable = Inl (UnknownGensetRating 9999)
 \<and> fuelLphInterpSimple 125 0.5 fuelCurveTable \<noteq> Inl (UnknownGensetRating 125)"
  using fuelLphInterpSimple_unknown_rating [of 9999 fuelCurveTable "0.5"]
    fuelLphInterpSimple_unknown_rating [of 9999 fuelCurveTable "- 1"]
    fuelLphInterpSimple_unknown_rating [of 125 fuelCurveTable "0.5"]
  by (simp add: fuelCurveTable_def mkPoint_def)

text \<open>
  C8. For a rating that a row of the table has and a load fraction strictly between 0.25
  and 1.0, the loop over the breakpoints 0.25, 0.50, 0.75, 1.00 finds a bracket and
  returns a value, and that value is the result of \<open>fuelLphInterpSimple\<close>: the final
  \<^verbatim>\<open>throw\<close> (\<open>InterpolationFailure\<close>) is not reached.
\<close>

theorem fuelLphInterpSimple_bracket_found:
  assumes "g \<in> kva ` set table" and "0.25 < p" and "p < 1.0"
  shows "\<exists>row v. find (\<lambda>r. kva r = g) table = Some row
           \<and> interpLoop [0.25, 0.5, 0.75, 1.0] [lph25 row, lph50 row, lph75 row, lph100 row] p 0
               = Inr v
           \<and> fuelLphInterpSimple g p table = Inr v"
proof -
  obtain row where row: "find (\<lambda>r. kva r = g) table = Some row"
    using assms(1) find_rating_None [of g table]
    by (cases "find (\<lambda>r. kva r = g) table") auto
  have "\<exists>v. interpLoop [0.25, 0.5, 0.75, 1.0] [lph25 row, lph50 row, lph75 row, lph100 row] p 0
               = Inr v"
    using assms(2,3) unfolding interpLoop_unrolled by auto
  moreover have "fuelLphInterpSimple g p table
      = interpLoop [0.25, 0.5, 0.75, 1.0] [lph25 row, lph50 row, lph75 row, lph100 row] p 0"
    using assms(2,3) row by (simp add: fuelLphInterpSimple_def)
  ultimately show ?thesis using row by auto
qed

theorem fuelLphInterpSimple_bracket_found_witness:
  "125 \<in> kva ` set fuelCurveTable \<and> (0.25::real) < 0.448 \<and> (0.448::real) < 1.0
 \<and> (\<exists>row v. find (\<lambda>r. kva r = 125) fuelCurveTable = Some row
        \<and> interpLoop [0.25, 0.5, 0.75, 1.0] [lph25 row, lph50 row, lph75 row, lph100 row]
             0.448 0 = Inr v
        \<and> fuelLphInterpSimple 125 0.448 fuelCurveTable = Inr v)"
proof -
  have g: "125 \<in> kva ` set fuelCurveTable"
    by (simp add: fuelCurveTable_def mkPoint_def)
  have lo: "(0.25::real) < 0.448" and hi: "(0.448::real) < 1.0" by simp_all
  show ?thesis
    using fuelLphInterpSimple_bracket_found [OF g lo hi] g lo hi by blast
qed

text \<open>
  C9, as stated: whatever the diesel price, when every gate passes the result has
  \<open>annualFuelSavingsCost \<le> 0\<close> and no payback period when the price is at most 0. With
  \<open>hoursPerDay = 1e306\<close> and price 0 (the rest as in scenario A) every gate passes with
  \<open>fuelSavedPerDayLitres = 1.7703999999999998e306 > 0\<close>; the yearly litres overflow to
  infinity and infinity times 0 is NaN, so the cost is NaN, which is not \<open>\<le> 0\<close>.
\<close>

theorem overflow_cost_counterexample:
  "fle (dieselPricePerL_D (scenarioAD\<lparr>hoursPerDay_D := lit (10 ^ 306),
                                        dieselPricePerL_D := lit 0\<rparr>)) (Fin 0)
 \<and> map_sum id fuelSavedPerDayLitres_D
     (bessRoiD (scenarioAD\<lparr>hoursPerDay_D := lit (10 ^ 306), dieselPricePerL_D := lit 0\<rparr>)
        fuelCurveTableD) = Inr (lit (17703999999999998 * 10 ^ 290))
 \<and> fgt (lit (17703999999999998 * 10 ^ 290)) (Fin 0)
 \<and> map_sum id annualFuelSavingsCost_D
     (bessRoiD (scenarioAD\<lparr>hoursPerDay_D := lit (10 ^ 306), dieselPricePerL_D := lit 0\<rparr>)
        fuelCurveTableD) = Inr NaN
 \<and> \<not> fle NaN (Fin 0)"
proof -
  have "fle (lit 0) (Fin 0)" and "fgt (lit (17703999999999998 * 10 ^ 290)) (Fin 0)"
    by (simp_all add: eval_rnd)
  then show ?thesis using overflow_value by simp
qed

text \<open>
  C9, amended: \<open>bessRoi\<close> has no gate on \<open>dieselPricePerL\<close>. Replacing the price by any
  number \<open>d\<close>, zero and negative values included, leaves an error unchanged and turns a
  success into a success with the same \<open>fuelSavedPerDayLitres\<close>, whose
  \<open>annualFuelSavingsCost\<close> is \<open>fuelSavedPerDayLitres * 365 * d\<close> as evaluated in doubles;
  when \<open>d \<le> 0\<close> that cost is not \<open>> 0\<close> (it is \<open>\<le> 0\<close>, or NaN after an overflow) and
  \<open>paybackYears\<close> is absent.
\<close>

theorem bessRoiD_ignores_diesel_price:
  "(\<forall>e. bessRoiD inputs table = Inl e \<longrightarrow>
        bessRoiD (inputs\<lparr>dieselPricePerL_D := d\<rparr>) table = Inl e)
 \<and> (\<forall>r. bessRoiD inputs table = Inr r \<longrightarrow>
       (\<exists>r'. bessRoiD (inputs\<lparr>dieselPricePerL_D := d\<rparr>) table = Inr r'
           \<and> fuelSavedPerDayLitres_D r' = fuelSavedPerDayLitres_D r
           \<and> annualFuelSavingsCost_D r' = fmul (fmul (fuelSavedPerDayLitres_D r) (Fin 365)) d
           \<and> (fle d (Fin 0) \<longrightarrow>
                 \<not> fgt (annualFuelSavingsCost_D r') (Fin 0) \<and> paybackYears_D r' = None)))"
proof (intro conjI allI impI)
  fix e assume "bessRoiD inputs table = Inl e"
  then show "bessRoiD (inputs\<lparr>dieselPricePerL_D := d\<rparr>) table = Inl e"
    by (simp add: bessRoiD_price_update)
next
  fix r assume r: "bessRoiD inputs table = Inr r"
  then obtain r' where r': "bessRoiD (inputs\<lparr>dieselPricePerL_D := d\<rparr>) table = Inr r'"
    and same: "fuelSavedPerDayLitres_D r' = fuelSavedPerDayLitres_D r"
    by (simp add: bessRoiD_price_update)
  have pos: "\<not> fle (fuelSavedPerDayLitres_D r') (Fin 0)"
    by (rule bessRoiD_accepts_gates(9) [OF r'])
  have cost: "annualFuelSavingsCost_D r' = fmul (fmul (fuelSavedPerDayLitres_D r') (Fin 365)) d"
    using bessRoiD_accepts_fields(4) [OF r'] by simp
  have pay: "paybackYears_D r' =
      (if fgt (annualFuelSavingsCost_D r') (Fin 0)
       then Some (fdiv (capex_D r') (annualFuelSavingsCost_D r')) else None)"
    by (rule bessRoiD_accepts_fields(5) [OF r'])
  have "\<not> fgt (annualFuelSavingsCost_D r') (Fin 0) \<and> paybackYears_D r' = None"
    if d: "fle d (Fin 0)"
  proof -
    have "\<not> flt (fmul (fuelSavedPerDayLitres_D r') (Fin 365)) (Fin 0)"
      by (rule fmul_not_flt [OF not_fle_imp_not_flt [OF pos]]) simp
    then have "\<not> fgt (annualFuelSavingsCost_D r') (Fin 0)"
      unfolding cost using d by (rule fmul_not_fgt)
    then show ?thesis using pay by simp
  qed
  then show "\<exists>r'. bessRoiD (inputs\<lparr>dieselPricePerL_D := d\<rparr>) table = Inr r'
           \<and> fuelSavedPerDayLitres_D r' = fuelSavedPerDayLitres_D r
           \<and> annualFuelSavingsCost_D r' = fmul (fmul (fuelSavedPerDayLitres_D r) (Fin 365)) d
           \<and> (fle d (Fin 0) \<longrightarrow>
                 \<not> fgt (annualFuelSavingsCost_D r') (Fin 0) \<and> paybackYears_D r' = None)"
    using r' cost same by auto
qed

theorem bessRoiD_ignores_diesel_price_witness:
  "(\<exists>r. bessRoiD scenarioAD fuelCurveTableD = Inr r) \<and> fle (lit (- 2)) (Fin 0)
 \<and> (\<exists>r'. bessRoiD (scenarioAD\<lparr>dieselPricePerL_D := lit (- 2)\<rparr>) fuelCurveTableD = Inr r'
        \<and> annualFuelSavingsCost_D r' = lit (- 12923.919999999995)
        \<and> \<not> fgt (annualFuelSavingsCost_D r') (Fin 0) \<and> paybackYears_D r' = None)"
proof -
  have d: "fle (lit (- 2)) (Fin 0)"
    by (simp add: eval_rnd)
  show ?thesis
    using bessRoiD_ignores_diesel_price [of scenarioAD fuelCurveTableD "lit (- 2)"]
      scenarioAD_value scenarioAD_price_minus_2_value d
    by auto
qed




end
